theory Spec2Isabelle
  imports Complex_Main "HOL-Library.Multiset"
begin

section \<open>Data model\<close>

text \<open>
  The handler \<open>get_data\<close> of \<open>server.py\<close> loads an uploaded CSV file into a pandas
  DataFrame, reconciles the column names, converts the \<open>Datetime\<close> column to epoch
  milliseconds, sorts the rows by it and emits one chart record per row.

  A Python float is kept with its exact value: a finite double is a rational number,
  and the three special values are constructors of their own. No floating-point
  arithmetic is carried out on these values by the model.
\<close>

datatype pyfloat = Finite rat | PosInf | NegInf | NaN

text \<open>
  A cell as \<open>pd.read_csv\<close> delivers it: an empty field is a missing value, a field of a
  numeric column is a number, any other field is text.
\<close>

datatype cell = Blank | Num pyfloat | Str string

text \<open>
  The DataFrame: the column labels in file order (labels may repeat) and the rows,
  each row holding one cell per column.
\<close>

record dataframe =
  columns :: "string list"
  rows :: "cell list list"

definition wf_dataframe :: "dataframe \<Rightarrow> bool" where
  "wf_dataframe df = list_all (\<lambda>r. length r = length (columns df)) (rows df)"

text \<open>A pandas \<open>Timestamp\<close> is a count of nanoseconds since the epoch, or \<open>NaT\<close>.\<close>

datatype timestamp = NaT | Timestamp int

text \<open>One element of \<open>chart_data\<close>: the dictionary with the keys \<open>'x'\<close> and \<open>'y'\<close>.\<close>

record chart_record =
  rec_x :: int
  rec_y :: "pyfloat list"

text \<open>
  What the handler returns: the JSON body, either \<open>{"error": msg}\<close> or the list
  \<open>chart_data\<close>, and the HTTP status.
\<close>

datatype body = ErrorBody string | ChartBody "chart_record list"

datatype response = Response body nat

text \<open>
  The library calls of the handler whose results are not determined by \<open>server.py\<close>.
  Each is a parameter of the model:
  \<^item> \<open>to_datetime\<close>: \<open>pd.to_datetime(series, infer_datetime_format=True)\<close> on the cells
    of one column; \<open>Inl\<close> carries the text of the exception it raises;
  \<^item> \<open>timestamp_ms\<close>: the double \<open>x.timestamp() * 1000\<close> of a timestamp that is not \<open>NaT\<close>,
    given by its nanoseconds;
  \<^item> \<open>argsort\<close>: the order in which \<open>sort_values\<close> with its default \<open>kind='quicksort'\<close>
    arranges the given keys, as a list of positions;
  \<^item> \<open>float_of_str\<close>: Python's \<open>float\<close> on a string, \<open>None\<close> when it raises \<open>ValueError\<close>;
  \<^item> \<open>secure_filename\<close>: the function of that name of werkzeug.
\<close>

record library =
  to_datetime :: "cell list \<Rightarrow> string + timestamp list"
  timestamp_ms :: "int \<Rightarrow> rat"
  argsort :: "rat list \<Rightarrow> nat list"
  float_of_str :: "string \<Rightarrow> pyfloat option"
  secure_filename :: "string \<Rightarrow> string"

text \<open>
  The upload folder as the handler sees it: for each stored file name what
  \<open>pd.read_csv\<close> makes of the file, a DataFrame or the text of the exception raised.
\<close>

record server =
  uploads :: "string \<rightharpoonup> (string + dataframe)"

section \<open>Python string helpers\<close>

text \<open>
  A string is a list of characters with code points below 256. On these \<open>str.lower\<close>
  replaces the capital letters, \<open>A\<close> to \<open>Z\<close> and the accented capitals from code 192
  to 222 (but not the multiplication sign, 215), by the letter 32 places further on,
  and leaves every other character as it is.
\<close>

definition lower_char :: "char \<Rightarrow> char" where
  "lower_char c =
     (case map_of
        (zip (''ABCDEFGHIJKLMNOPQRSTUVWXYZ'' @
              [CHR 0xC0, CHR 0xC1, CHR 0xC2, CHR 0xC3, CHR 0xC4, CHR 0xC5, CHR 0xC6, CHR 0xC7, CHR 0xC8, CHR 0xC9, CHR 0xCA, CHR 0xCB, CHR 0xCC, CHR 0xCD, CHR 0xCE, CHR 0xCF,
               CHR 0xD0, CHR 0xD1, CHR 0xD2, CHR 0xD3, CHR 0xD4, CHR 0xD5, CHR 0xD6, CHR 0xD8, CHR 0xD9, CHR 0xDA, CHR 0xDB, CHR 0xDC, CHR 0xDD, CHR 0xDE])
             (''abcdefghijklmnopqrstuvwxyz'' @
              [CHR 0xE0, CHR 0xE1, CHR 0xE2, CHR 0xE3, CHR 0xE4, CHR 0xE5, CHR 0xE6, CHR 0xE7, CHR 0xE8, CHR 0xE9, CHR 0xEA, CHR 0xEB, CHR 0xEC, CHR 0xED, CHR 0xEE, CHR 0xEF,
               CHR 0xF0, CHR 0xF1, CHR 0xF2, CHR 0xF3, CHR 0xF4, CHR 0xF5, CHR 0xF6, CHR 0xF8, CHR 0xF9, CHR 0xFA, CHR 0xFB, CHR 0xFC, CHR 0xFD, CHR 0xFE])) c of
        Some l \<Rightarrow> l
      | None \<Rightarrow> c)"

definition str_lower :: "string \<Rightarrow> string" where
  "str_lower s = map lower_char s"

text \<open>\<open>sep.join(xs)\<close>.\<close>

fun join_str :: "string \<Rightarrow> string list \<Rightarrow> string" where
  "join_str sep [] = []"
| "join_str sep [x] = x"
| "join_str sep (x # y # ys) = x @ sep @ join_str sep (y # ys)"

text \<open>
  \<open>repr\<close> of a string: single quotes, unless the string holds a single quote and no
  double quote; the quote in use and the backslash are escaped, tab, line feed and
  carriage return are written as a backslash and the letter \<open>t\<close>, \<open>n\<close> or \<open>r\<close>, and
  every other character that is not printable (codes below 32, 127 to 160, and 173)
  as a backslash, the letter \<open>x\<close> and two hexadecimal digits.
\<close>

definition hex_digit :: "nat \<Rightarrow> char" where
  "hex_digit n = ''0123456789abcdef'' ! (n mod 16)"

definition repr_char :: "char \<Rightarrow> char \<Rightarrow> string" where
  "repr_char q c =
     (let n = (of_char c :: nat) in
      if c = q \<or> n = 92 then [CHR 0x5C, c]
      else if n = 9 then [CHR 0x5C, CHR ''t'']
      else if n = 10 then [CHR 0x5C, CHR ''n'']
      else if n = 13 then [CHR 0x5C, CHR ''r'']
      else if n < 32 \<or> (127 \<le> n \<and> n \<le> 160) \<or> n = 173
        then [CHR 0x5C, CHR ''x'', hex_digit (n div 16), hex_digit n]
      else [c])"

definition py_repr :: "string \<Rightarrow> string" where
  "py_repr s =
     (let q = (if CHR 0x27 \<in> set s \<and> CHR 0x22 \<notin> set s then CHR 0x22 else CHR 0x27)
      in [q] @ concat (map (repr_char q) s) @ [q])"

text \<open>\<open>str\<close> of a list of strings, as the f-string prints \<open>list(df.columns)\<close>.\<close>

definition repr_list :: "string list \<Rightarrow> string" where
  "repr_list xs = ''['' @ join_str '', '' (map py_repr xs) @ '']''"

text \<open>Python's \<open>int\<close> on a float: the fractional part is dropped, towards zero.\<close>

definition py_int :: "rat \<Rightarrow> int" where
  "py_int q = (if 0 \<le> q then \<lfloor>q\<rfloor> else \<lceil>q\<rceil>)"

section \<open>Schema reconciliation\<close>

definition DEFAULT_NIFTY_FILE :: string where
  "DEFAULT_NIFTY_FILE = ''NIFTY__1D__.csv''"

text \<open>The dictionary \<open>column_mapping\<close>, in the order it is written.\<close>

definition column_mapping :: "(string \<times> string) list" where
  "column_mapping =
     [(''datetime'', ''Datetime''),
      (''open'', ''Open''),
      (''high'', ''High''),
      (''low'', ''Low''),
      (''close'', ''Close''),
      (''date'', ''Datetime'')]"

definition required_cols :: "string list" where
  "required_cols = [''Datetime'', ''Open'', ''High'', ''Low'', ''Close'']"

text \<open>
  \<open>df.rename(columns=m)\<close>: every label that is a key of \<open>m\<close> is replaced by its value,
  every other label is kept; the number and the order of the columns do not change.
\<close>

definition rename_columns :: "(string \<times> string) list \<Rightarrow> string list \<Rightarrow> string list" where
  "rename_columns m cols = map (\<lambda>c. case map_of m c of Some v \<Rightarrow> v | None \<Rightarrow> c) cols"

text \<open>
  Lines 119 to 122: the labels are lower-cased, then renamed by the entries of
  \<open>column_mapping\<close> whose key is among them.
\<close>

definition reconcile :: "string list \<Rightarrow> string list" where
  "reconcile cols =
     (let lowered = map str_lower cols
      in rename_columns (filter (\<lambda>(k, v). k \<in> set lowered) column_mapping) lowered)"

definition missing_cols :: "string list \<Rightarrow> string list" where
  "missing_cols cols = filter (\<lambda>col. col \<notin> set cols) required_cols"

definition schema_message :: "string list \<Rightarrow> string" where
  "schema_message cols =
     ''CSV must contain '' @ [CHR 0x27] @ join_str '', '' (missing_cols cols) @ [CHR 0x27]
       @ '' columns. Found: '' @ repr_list cols"

section \<open>Candlestick transformation\<close>

text \<open>
  \<open>row[name]\<close>: the cells of a row under a label. A label that occurs once gives one
  cell (a scalar); a repeated label gives several (a Series).
\<close>

definition row_get :: "string list \<Rightarrow> cell list \<Rightarrow> string \<Rightarrow> cell list" where
  "row_get cols r name = map snd (filter (\<lambda>(n, c). n = name) (zip cols r))"

text \<open>
  Python's \<open>float\<close> on a cell. A missing value is the float NaN already; text goes
  through the string parser, whose failure is a \<open>ValueError\<close> with the text below.
\<close>

fun py_float :: "library \<Rightarrow> cell \<Rightarrow> string + pyfloat" where
  "py_float lib Blank = Inr NaN"
| "py_float lib (Num v) = Inr v"
| "py_float lib (Str s) =
     (case float_of_str lib s of
        Some v \<Rightarrow> Inr v
      | None \<Rightarrow> Inl (''could not convert string to float: '' @ py_repr s))"

text \<open>
  \<open>float(row[name])\<close>: a label that is absent raises \<open>KeyError\<close>, a repeated label
  hands a Series to \<open>float\<close>, which raises \<open>TypeError\<close>.
\<close>

definition float_at :: "library \<Rightarrow> string list \<Rightarrow> cell list \<Rightarrow> string \<Rightarrow> string + pyfloat" where
  "float_at lib cols r name =
     (case row_get cols r name of
        [] \<Rightarrow> Inl (py_repr name)
      | [c] \<Rightarrow> py_float lib c
      | _ \<Rightarrow> Inl (''cannot convert the series to <class '' @ [CHR 0x27] @ ''float''
                   @ [CHR 0x27] @ ''>''))"

text \<open>Evaluating a list of fallible expressions from left to right.\<close>

fun sequence :: "('e + 'a) list \<Rightarrow> 'e + 'a list" where
  "sequence [] = Inr []"
| "sequence (m # ms) =
     (case m of
        Inl e \<Rightarrow> Inl e
      | Inr v \<Rightarrow> (case sequence ms of Inl e \<Rightarrow> Inl e | Inr vs \<Rightarrow> Inr (v # vs)))"

text \<open>
  The dictionary appended in the loop body, lines 141 to 149, for a row whose
  \<open>Datetime\<close> cell holds the key \<open>k\<close>.
\<close>

definition chart_point :: "library \<Rightarrow> string list \<Rightarrow> rat \<Rightarrow> cell list \<Rightarrow> string + chart_record" where
  "chart_point lib cols k r =
     (case sequence (map (float_at lib cols r) [''Open'', ''High'', ''Low'', ''Close'']) of
        Inl e \<Rightarrow> Inl e
      | Inr ys \<Rightarrow> Inr \<lparr>rec_x = py_int k, rec_y = ys\<rparr>)"

text \<open>The loop over \<open>df.iterrows()\<close>; the first exception ends it.\<close>

fun build_chart_data :: "library \<Rightarrow> string list \<Rightarrow> (rat \<times> cell list) list \<Rightarrow> string + chart_record list" where
  "build_chart_data lib cols [] = Inr []"
| "build_chart_data lib cols ((k, r) # rest) =
     (case chart_point lib cols k r of
        Inl e \<Rightarrow> Inl e
      | Inr p \<Rightarrow>
          (case build_chart_data lib cols rest of
             Inl e \<Rightarrow> Inl e
           | Inr ps \<Rightarrow> Inr (p # ps)))"

text \<open>
  Line 133: \<open>x.timestamp() * 1000\<close> on every element; \<open>NaT\<close> has no \<open>timestamp\<close>.
\<close>

fun apply_timestamp :: "library \<Rightarrow> timestamp list \<Rightarrow> string + rat list" where
  "apply_timestamp lib [] = Inr []"
| "apply_timestamp lib (NaT # ts) = Inl ''NaTType does not support timestamp''"
| "apply_timestamp lib (Timestamp ns # ts) =
     (case apply_timestamp lib ts of
        Inl e \<Rightarrow> Inl e
      | Inr ks \<Rightarrow> Inr (timestamp_ms lib ns # ks))"

text \<open>
  Line 136: \<open>df.sort_values(by='Datetime').reset_index(drop=True)\<close>. No \<open>kind\<close> is
  passed, so the rows are taken in the order the library's default sort gives.
\<close>

definition sort_values :: "library \<Rightarrow> (rat \<times> cell list) list \<Rightarrow> (rat \<times> cell list) list" where
  "sort_values lib keyed = map (\<lambda>i. keyed ! i) (argsort lib (map fst keyed))"

text \<open>
  Lines 131 to 150, inside the \<open>try\<close>. \<open>df['Datetime']\<close> is a Series when the label
  occurs once; when it is repeated the selection is a DataFrame, which
  \<open>pd.to_datetime\<close> refuses.
\<close>

definition process :: "library \<Rightarrow> string list \<Rightarrow> cell list list \<Rightarrow> string + chart_record list" where
  "process lib cols rws =
     (if count_list cols ''Datetime'' \<noteq> 1 then Inl ''cannot assemble with duplicate keys''
      else
        case to_datetime lib (concat (map (\<lambda>r. row_get cols r ''Datetime'') rws)) of
          Inl e \<Rightarrow> Inl e
        | Inr ts \<Rightarrow>
            (case apply_timestamp lib ts of
               Inl e \<Rightarrow> Inl e
             | Inr ks \<Rightarrow> build_chart_data lib cols (sort_values lib (zip ks rws))))"

text \<open>Lines 107 to 152: everything after \<open>pd.read_csv\<close>.\<close>

definition transform :: "library \<Rightarrow> dataframe \<Rightarrow> response" where
  "transform lib df =
     (let cols = reconcile (columns df) in
      if \<not> (\<forall>col \<in> set required_cols. col \<in> set cols)
      then Response (ErrorBody (schema_message cols)) 400
      else
        case process lib cols (rows df) of
          Inl e \<Rightarrow> Response (ErrorBody (''Error processing CSV: '' @ e)) 500
        | Inr chart_data \<Rightarrow> Response (ChartBody chart_data) 200)"

text \<open>
  The handler. It reads the upload folder and leaves it as it was, which the returned
  state records.
\<close>

definition get_data :: "library \<Rightarrow> server \<Rightarrow> string option \<Rightarrow> response \<times> server" where
  "get_data lib st filename =
     (let fname = (case filename of None \<Rightarrow> DEFAULT_NIFTY_FILE | Some f \<Rightarrow> f) in
      case uploads st (secure_filename lib fname) of
        None \<Rightarrow>
          (Response (ErrorBody (''File '' @ [CHR 0x27] @ fname @ [CHR 0x27]
                                 @ '' not found. Please upload it first.'')) 404, st)
      | Some (Inl e) \<Rightarrow> (Response (ErrorBody (''Error processing CSV: '' @ e)) 500, st)
      | Some (Inr df) \<Rightarrow> (transform lib df, st))"

section \<open>What the handler relies on from the libraries\<close>

text \<open>
  The documented behaviour of the two pandas calls, as far as the properties below need
  it. \<open>sort_values\<close> returns the rows rearranged so that the keys ascend;
  \<open>pd.to_datetime\<close> returns one timestamp per element and accepts the empty Series.
\<close>

definition argsort_ok :: "library \<Rightarrow> bool" where
  "argsort_ok lib =
     (\<forall>ks. mset (argsort lib ks) = mset [0..<length ks]
           \<and> sorted (map (\<lambda>i. ks ! i) (argsort lib ks)))"

definition to_datetime_ok :: "library \<Rightarrow> bool" where
  "to_datetime_ok lib =
     (to_datetime lib [] = Inr []
      \<and> (\<forall>cs ts. to_datetime lib cs = Inr ts \<longrightarrow> length ts = length cs))"

section \<open>A library instance and example tables\<close>

text \<open>
  A small instance of the library parameters, used to evaluate the handler on
  examples: a numeric \<open>Datetime\<close> cell is a count of nanoseconds since the epoch (as
  \<open>pd.to_datetime\<close> reads numbers), a blank one is \<open>NaT\<close>, and no text is read as a
  date; \<open>float\<close> reads strings of decimal digits; the sort keeps rows with equal
  keys in their order. On whole seconds \<open>x.timestamp() * 1000\<close> is exact.
\<close>

fun digits_value :: "string \<Rightarrow> nat option" where
  "digits_value [] = Some 0"
| "digits_value (c # cs) =
     (case (map_of (zip ''0123456789'' [0, 1, 2, 3, 4, 5, 6, 7, 8, 9]) c, digits_value cs) of
        (Some d, Some v) \<Rightarrow> Some (d * 10 ^ length cs + v)
      | _ \<Rightarrow> None)"

definition float_of_str0 :: "string \<Rightarrow> pyfloat option" where
  "float_of_str0 s = (if s = [] then None else map_option (\<lambda>n. Finite (of_nat n)) (digits_value s))"

definition to_datetime0 :: "cell list \<Rightarrow> string + timestamp list" where
  "to_datetime0 cs = sequence (map (\<lambda>c. case c of
       Blank \<Rightarrow> Inr NaT
     | Num (Finite q) \<Rightarrow> Inr (Timestamp \<lfloor>q\<rfloor>)
     | Num _ \<Rightarrow> Inl ''cannot convert input with unit ns''
     | Str s \<Rightarrow> Inl (''Unknown datetime string format, unable to parse: '' @ s)) cs)"

definition lib0 :: library where
  "lib0 = \<lparr>to_datetime = to_datetime0,
           timestamp_ms = (\<lambda>ns. of_int ns / 1000000),
           argsort = (\<lambda>ks. sort_key (\<lambda>i. ks ! i) [0..<length ks]),
           float_of_str = float_of_str0,
           secure_filename = (\<lambda>s. s)\<rparr>"

definition df_no_close :: dataframe where
  "df_no_close = \<lparr>columns = [''Date'', ''OPEN'', ''High'', ''low'', ''Volume''],
                  rows = [[Str ''25/04/05 9:15'', Num (Finite 100), Num (Finite 110), Num (Finite 95), Num (Finite 5000)]]\<rparr>"

definition df_both :: dataframe where
  "df_both = \<lparr>columns = [''date'', ''datetime'', ''open'', ''high'', ''low'', ''close''],
              rows = [[Num (Finite 0), Num (Finite 60000000000),
                       Num (Finite 100), Num (Finite 110), Num (Finite 95), Num (Finite 105)]]\<rparr>"

definition df_both_header_only :: dataframe where
  "df_both_header_only =
     \<lparr>columns = [''Date'', ''Datetime'', ''Open'', ''High'', ''Low'', ''Close''], rows = []\<rparr>"

definition df_header_only :: dataframe where
  "df_header_only = \<lparr>columns = [''Datetime'', ''Open'', ''High'', ''Low'', ''Close''], rows = []\<rparr>"

definition df_two_days :: dataframe where
  "df_two_days =
     \<lparr>columns = [''Date'', ''Open'', ''High'', ''Low'', ''Close''],
      rows = [[Num (Finite 86400000000000), Num (Finite 100), Num (Finite 110), Num (Finite 95), Num (Finite 105)],
              [Num (Finite 0), Num (Finite 90), Num (Finite 101), Num (Finite 88), Num (Finite 100)]]\<rparr>"

text \<open>
  Not part of the handler: the \<open>y\<close> list that C10 describes for a row whose four cells
  are numbers or blank, the number of a numeric cell and NaN in the place of a blank
  one. The handler's own result is compared with it below.
\<close>

definition expected_y :: "string list \<Rightarrow> cell list \<Rightarrow> pyfloat list" where
  "expected_y cols r =
     map (\<lambda>name. case row_get cols r name of [Num v] \<Rightarrow> v | _ \<Rightarrow> NaN)
       [''Open'', ''High'', ''Low'', ''Close'']"

definition df_blank_open :: dataframe where
  "df_blank_open =
     \<lparr>columns = [''datetime'', ''open'', ''high'', ''low'', ''close''],
      rows = [[Num (Finite 0), Blank, Num (Finite 110), Num (Finite 95), Num (Finite 105)]]\<rparr>"

definition df_blank_low :: dataframe where
  "df_blank_low =
     \<lparr>columns = [''Datetime'', ''Open'', ''High'', ''Low'', ''Close''],
      rows = [[Num (Finite 60000000000), Num (Finite 100), Num (Finite 110), Blank, Num (Finite 105)],
              [Num (Finite 0), Num (Finite 90), Num (Finite 101), Num (Finite 88), Num (Finite 100)]]\<rparr>"

definition df_abc_open :: dataframe where
  "df_abc_open =
     \<lparr>columns = [''datetime'', ''open'', ''high'', ''low'', ''close''],
      rows = [[Num (Finite 0), Str ''abc'', Num (Finite 110), Num (Finite 95), Num (Finite 105)],
              [Num (Finite 60000000000), Str ''100'', Num (Finite 111), Num (Finite 96), Num (Finite 106)]]\<rparr>"

definition df_abc_close :: dataframe where
  "df_abc_close =
     \<lparr>columns = [''datetime'', ''open'', ''high'', ''low'', ''close''],
      rows = [[Num (Finite 0), Num (Finite 100), Num (Finite 110), Num (Finite 95), Str ''105''],
              [Num (Finite 60000000000), Num (Finite 101), Num (Finite 111), Num (Finite 96), Str ''abc'']]\<rparr>"

text \<open>
  The default \<open>kind='quicksort'\<close> of \<open>sort_values\<close> is numpy's \<open>argsort\<close>, which for
  doubles without vector instructions is the routine \<open>aquicksort\<close> of
  \<open>npysort/quicksort.cpp\<close>: a median-of-three quicksort on the array \<open>tosort\<close> of
  positions that leaves ranges of at most 17 positions to an insertion sort. It is
  written out here on the list \<open>a\<close> of positions and the keys \<open>v\<close>; a loop takes a
  bound on its number of rounds as first argument. \<open>INTP_SWAP\<close> exchanges two
  entries.
\<close>

definition INTP_SWAP :: "nat list \<Rightarrow> nat \<Rightarrow> nat \<Rightarrow> nat list" where
  "INTP_SWAP a i j = a[i := a ! j, j := a ! i]"

text \<open>\<open>do ++pi; while (v[*pi] < vp)\<close> and \<open>do --pj; while (vp < v[*pj])\<close>.\<close>

fun scan_up :: "nat \<Rightarrow> rat list \<Rightarrow> rat \<Rightarrow> nat list \<Rightarrow> nat \<Rightarrow> nat" where
  "scan_up 0 v vp a i = i"
| "scan_up (Suc n) v vp a i =
     (if v ! (a ! (i + 1)) < vp then scan_up n v vp a (i + 1) else i + 1)"

fun scan_down :: "nat \<Rightarrow> rat list \<Rightarrow> rat \<Rightarrow> nat list \<Rightarrow> nat \<Rightarrow> nat" where
  "scan_down 0 v vp a j = j"
| "scan_down (Suc n) v vp a j =
     (if vp < v ! (a ! (j - 1)) then scan_down n v vp a (j - 1) else j - 1)"

text \<open>The loop \<open>for (;;)\<close> of the partition: scan from both ends, stop or exchange.\<close>

fun partition_loop :: "nat \<Rightarrow> rat list \<Rightarrow> rat \<Rightarrow> nat list \<Rightarrow> nat \<Rightarrow> nat \<Rightarrow> nat list \<times> nat" where
  "partition_loop 0 v vp a i j = (a, i)"
| "partition_loop (Suc n) v vp a i j =
     (let i' = scan_up (length a) v vp a i;
          j' = scan_down (length a) v vp a j
      in if j' \<le> i' then (a, i') else partition_loop n v vp (INTP_SWAP a i' j') i' j')"

text \<open>
  One partition of the range from \<open>pl\<close> to \<open>pr\<close>: the median of the first, middle and
  last key becomes the pivot and is parked at \<open>pr - 1\<close>; the result is the new list and
  the final place of the pivot.
\<close>

definition aquicksort_partition :: "rat list \<Rightarrow> nat list \<Rightarrow> nat \<Rightarrow> nat \<Rightarrow> nat list \<times> nat" where
  "aquicksort_partition v a pl pr =
     (let pm = pl + (pr - pl) div 2;
          a1 = (if v ! (a ! pm) < v ! (a ! pl) then INTP_SWAP a pm pl else a);
          a2 = (if v ! (a1 ! pr) < v ! (a1 ! pm) then INTP_SWAP a1 pr pm else a1);
          a3 = (if v ! (a2 ! pm) < v ! (a2 ! pl) then INTP_SWAP a2 pm pl else a2);
          vp = v ! (a3 ! pm);
          a4 = INTP_SWAP a3 pm (pr - 1)
      in case partition_loop (length a) v vp a4 pl (pr - 1) of
           (a5, i) \<Rightarrow> (INTP_SWAP a5 i (pr - 1), i))"

text \<open>The insertion sort of a range: an entry moves down past the larger keys only.\<close>

fun shift_down :: "nat \<Rightarrow> rat list \<Rightarrow> rat \<Rightarrow> nat list \<Rightarrow> nat \<Rightarrow> nat \<Rightarrow> nat list \<times> nat" where
  "shift_down 0 v vp a pl j = (a, j)"
| "shift_down (Suc n) v vp a pl j =
     (if pl < j \<and> vp < v ! (a ! (j - 1)) then shift_down n v vp (a[j := a ! (j - 1)]) pl (j - 1)
      else (a, j))"

fun aquicksort_insertion :: "nat \<Rightarrow> rat list \<Rightarrow> nat list \<Rightarrow> nat \<Rightarrow> nat \<Rightarrow> nat \<Rightarrow> nat list" where
  "aquicksort_insertion 0 v a pl pr i = a"
| "aquicksort_insertion (Suc n) v a pl pr i =
     (if i \<le> pr then
        (let vi = a ! i in
         case shift_down (length a) v (v ! vi) a pl i of
           (a', j) \<Rightarrow> aquicksort_insertion n v (a'[j := vi]) pl pr (i + 1))
      else a)"

text \<open>The position of the highest set bit, from which the depth limit is taken.\<close>

fun npy_get_msb :: "nat \<Rightarrow> nat \<Rightarrow> nat" where
  "npy_get_msb 0 n = 0"
| "npy_get_msb (Suc f) n = (if n div 2 = 0 then 0 else 1 + npy_get_msb f (n div 2))"

text \<open>
  The outer loop with its stack of ranges still to sort. A range of more than 17
  positions is partitioned, the larger part is pushed and the smaller one continued;
  a shorter range is insertion sorted and the next range popped. Where numpy, the
  depth limit used up, would hand a popped range to heapsort, the result is \<open>None\<close>:
  that routine is not written out here.
\<close>

fun aquicksort_loop :: "nat \<Rightarrow> rat list \<Rightarrow> nat list \<Rightarrow> nat \<Rightarrow> nat \<Rightarrow> int
                         \<Rightarrow> (nat \<times> nat \<times> int) list \<Rightarrow> nat list option" where
  "aquicksort_loop 0 v a pl pr cdepth stack = None"
| "aquicksort_loop (Suc n) v a pl pr cdepth stack =
     (if 16 < pr - pl then
        (case aquicksort_partition v a pl pr of
           (a', i) \<Rightarrow>
             (if i - pl < pr - i
              then aquicksort_loop n v a' pl (i - 1) (cdepth - 1) ((i + 1, pr, cdepth - 1) # stack)
              else aquicksort_loop n v a' (i + 1) pr (cdepth - 1) ((pl, i - 1, cdepth - 1) # stack)))
      else
        (let a' = aquicksort_insertion (length a) v a pl pr (pl + 1) in
         case stack of
           [] \<Rightarrow> Some a'
         | (pl', pr', d) # rest \<Rightarrow>
             (if d < 0 then None else aquicksort_loop n v a' pl' pr' d rest)))"

definition aquicksort :: "rat list \<Rightarrow> nat list option" where
  "aquicksort v =
     (let num = length v in
      aquicksort_loop (num * num + 1) v [0..<num] 0 (num - 1)
        (2 * int (npy_get_msb num num)) [])"

text \<open>
  The library instance \<open>lib0\<close> with numpy's quicksort as the sort. Where the
  transcription above gives no result the ordering sort of \<open>lib0\<close> stands in; the table
  below does not get there.
\<close>

definition lib_numpy :: library where
  "lib_numpy =
     lib0\<lparr>argsort := (\<lambda>ks. case aquicksort ks of
                              Some p \<Rightarrow> p
                            | None \<Rightarrow> sort_key (\<lambda>i. ks ! i) [0..<length ks])\<rparr>"

text \<open>Eighteen candles with the same timestamp; candle \<open>i\<close> has the value \<open>i\<close> four times.\<close>

definition tie_row :: "nat \<Rightarrow> cell list" where
  "tie_row i = [Num (Finite 0), Num (Finite (of_nat i)), Num (Finite (of_nat i)),
                Num (Finite (of_nat i)), Num (Finite (of_nat i))]"

definition tie_record :: "nat \<Rightarrow> chart_record" where
  "tie_record i = \<lparr>rec_x = 0, rec_y = [Finite (of_nat i), Finite (of_nat i),
                                       Finite (of_nat i), Finite (of_nat i)]\<rparr>"

definition df_ties :: dataframe where
  "df_ties =
     \<lparr>columns = [''datetime'', ''open'', ''high'', ''low'', ''close''],
      rows = map tie_row [0, 1, 2, 3, 4, 5, 6, 7, 8, 9, 10, 11, 12, 13, 14, 15, 16, 17]\<rparr>"

text \<open>
  A double as a rational: \<open>double_of q\<close> is the double nearest to \<open>q\<close>, ties to the even
  significand, for \<open>q\<close> in the range of the normal doubles. \<open>normalise\<close> scales a positive
  number into the interval from \<open>2^52\<close> to \<open>2^53\<close> and counts the halvings.
\<close>

fun normalise :: "nat \<Rightarrow> rat \<Rightarrow> int \<Rightarrow> rat \<times> int" where
  "normalise 0 q e = (q, e)"
| "normalise (Suc n) q e =
     (if 9007199254740992 \<le> q then normalise n (q / 2) (e + 1)
      else if q < 4503599627370496 then normalise n (q * 2) (e - 1)
      else (q, e))"

definition round_half_even :: "rat \<Rightarrow> int" where
  "round_half_even r =
     (let f = \<lfloor>r\<rfloor>; d = r - of_int f in
      if d < 1 / 2 then f else if 1 / 2 < d then f + 1 else if even f then f else f + 1)"

definition double_pos :: "rat \<Rightarrow> rat" where
  "double_pos q =
     (case normalise 2200 q 0 of
        (s, e) \<Rightarrow>
          (if 0 \<le> e then of_int (round_half_even s) * 2 ^ nat e
           else of_int (round_half_even s) / 2 ^ nat (- e)))"

definition double_of :: "rat \<Rightarrow> rat" where
  "double_of q = (if q = 0 then 0 else if q < 0 then - double_pos (- q) else double_pos q)"

text \<open>
  \<open>x.timestamp() * 1000\<close> in doubles: \<open>timestamp()\<close> returns the seconds since the epoch,
  given to the microsecond, as a double, and the product with 1000 is rounded to a
  double again.
\<close>

definition timestamp_ms_double :: "int \<Rightarrow> rat" where
  "timestamp_ms_double ns = double_of (double_of (of_int (ns div 1000) / 1000000) * 1000)"



definition df_bad_date :: dataframe where
  "df_bad_date =
     \<lparr>columns = [''datetime'', ''open'', ''high'', ''low'', ''close''],
      rows = [[Str ''not a date'', Num (Finite 100), Num (Finite 110), Num (Finite 95), Num (Finite 105)]]\<rparr>"

section \<open>Auxiliary lemmas\<close>

lemma py_int_mono: "a \<le> b \<Longrightarrow> py_int a \<le> py_int b"
proof -
  assume ab: "a \<le> b"
  have "\<lceil>a\<rceil> \<le> \<lfloor>b\<rfloor>" if "a < 0" "0 \<le> b"
  proof -
    have "\<lceil>a\<rceil> \<le> 0" using that(1) by (simp add: ceiling_le_zero)
    moreover have "0 \<le> \<lfloor>b\<rfloor>" using that(2) by simp
    ultimately show ?thesis by linarith
  qed
  then show ?thesis
    unfolding py_int_def using ab by (auto intro: floor_mono ceiling_mono)
qed

lemma argsort_set: "argsort_ok lib \<Longrightarrow> set (argsort lib ks) = {0..<length ks}"
  unfolding argsort_ok_def by (metis mset_eq_setD set_upt)

lemma sort_values_mset: "argsort_ok lib \<Longrightarrow> mset (sort_values lib keyed) = mset keyed"
proof -
  assume ok: "argsort_ok lib"
  let ?p = "argsort lib (map fst keyed)"
  have "mset ?p = mset [0..<length keyed]"
    using ok unfolding argsort_ok_def by (metis length_map)
  then have "mset (map (\<lambda>i. keyed ! i) ?p) = mset (map (\<lambda>i. keyed ! i) [0..<length keyed])"
    by (metis mset_map)
  then show ?thesis
    by (simp add: sort_values_def map_nth)
qed

lemma sort_values_sorted: "argsort_ok lib \<Longrightarrow> sorted (map fst (sort_values lib keyed))"
proof -
  assume ok: "argsort_ok lib"
  let ?ks = "map fst keyed"
  let ?p = "argsort lib ?ks"
  have s: "sorted (map (\<lambda>i. ?ks ! i) ?p)"
    using ok unfolding argsort_ok_def by blast
  have "set ?p = {0..<length ?ks}" using ok by (rule argsort_set)
  then have "\<forall>i\<in>set ?p. i < length keyed" by simp
  then have "map (\<lambda>i. ?ks ! i) ?p = map fst (sort_values lib keyed)"
    by (simp add: sort_values_def)
  with s show ?thesis by simp
qed

lemma sequence_map_Inr: "sequence (map Inr vs) = Inr vs"
  by (induction vs) auto

lemma sequence_Inr_D: "sequence ms = Inr vs \<Longrightarrow> ms = map Inr vs"
  by (induction ms arbitrary: vs) (auto split: sum.splits)

lemma sequence_Inr_iff: "sequence ms = Inr vs \<longleftrightarrow> ms = map Inr vs"
  using sequence_map_Inr sequence_Inr_D by metis

lemma sequence_Inl: "sequence ms = Inl e \<Longrightarrow> Inl e \<in> set ms"
  by (induction ms) (auto split: sum.splits)

lemma chart_point_Inr:
  "chart_point lib cols k r = Inr p \<longleftrightarrow>
     (\<exists>vo vh vl vc. float_at lib cols r ''Open'' = Inr vo \<and> float_at lib cols r ''High'' = Inr vh
        \<and> float_at lib cols r ''Low'' = Inr vl \<and> float_at lib cols r ''Close'' = Inr vc
        \<and> p = \<lparr>rec_x = py_int k, rec_y = [vo, vh, vl, vc]\<rparr>)"
  unfolding chart_point_def
  by (auto split: sum.splits simp: sequence_Inr_iff)

lemma chart_point_Inl:
  "chart_point lib cols k r = Inl e \<Longrightarrow>
     \<exists>name \<in> set [''Open'', ''High'', ''Low'', ''Close'']. float_at lib cols r name = Inl e"
  unfolding chart_point_def
  by (auto split: sum.splits dest!: sequence_Inl)

lemma build_chart_data_Inr_D:
  "build_chart_data lib cols krs = Inr cd \<Longrightarrow>
     list_all2 (\<lambda>kr p. chart_point lib cols (fst kr) (snd kr) = Inr p) krs cd"
  by (induction krs arbitrary: cd) (auto split: sum.splits)

lemma build_chart_data_Inr_I:
  "list_all2 (\<lambda>kr p. chart_point lib cols (fst kr) (snd kr) = Inr p) krs cd \<Longrightarrow>
     build_chart_data lib cols krs = Inr cd"
  by (induction krs cd rule: list_all2_induct) auto

lemma build_chart_data_Inl:
  "build_chart_data lib cols krs = Inl e \<Longrightarrow>
     \<exists>kr \<in> set krs. chart_point lib cols (fst kr) (snd kr) = Inl e"
  by (induction krs) (auto split: sum.splits)

lemma build_chart_data_fails:
  "kr \<in> set krs \<Longrightarrow> chart_point lib cols (fst kr) (snd kr) = Inl e \<Longrightarrow>
     \<exists>e'. build_chart_data lib cols krs = Inl e'"
  by (induction krs) (auto split: sum.splits)

lemma apply_timestamp_length: "apply_timestamp lib ts = Inr ks \<Longrightarrow> length ks = length ts"
  by (induction lib ts arbitrary: ks rule: apply_timestamp.induct) (auto split: sum.splits)

lemma map_of_filter_key:
  "map_of (filter (\<lambda>(k, v). P k) m) x = (if P x then map_of m x else None)"
  by (induction m) auto

lemma reconcile_eq:
  "reconcile cols =
     map (\<lambda>c. case map_of column_mapping (str_lower c) of Some v \<Rightarrow> v | None \<Rightarrow> str_lower c) cols"
  unfolding reconcile_def rename_columns_def Let_def
  by (simp add: map_of_filter_key comp_def cong: map_cong)

lemma length_reconcile: "length (reconcile cols) = length cols"
  by (simp add: reconcile_eq)

lemma missing_cols_set: "set (missing_cols cols) = set required_cols - set cols"
  by (auto simp: missing_cols_def)

lemma count_list_map_filter:
  "count_list (map f xs) y = length (filter (\<lambda>x. f x = y) xs)"
  by (induction xs) auto

lemma two_members_length:
  assumes "a \<in> set ys" "b \<in> set ys" "a \<noteq> b"
  shows "2 \<le> length ys"
proof -
  have "{a, b} \<subseteq> set ys" using assms by simp
  then have "card {a, b} \<le> card (set ys)" by (simp add: card_mono)
  moreover have "card {a, b} = 2" using assms(3) by simp
  moreover have "card (set ys) \<le> length ys" by (rule card_length)
  ultimately show ?thesis by linarith
qed

lemma lib0_argsort_ok: "argsort_ok lib0"
  unfolding argsort_ok_def lib0_def by simp

lemma to_datetime0_length: "to_datetime0 cs = Inr ts \<Longrightarrow> length ts = length cs"
  unfolding to_datetime0_def by (auto simp: sequence_Inr_iff dest!: arg_cong[where f=length])

lemma lib0_to_datetime_ok: "to_datetime_ok lib0"
  unfolding to_datetime_ok_def lib0_def
  by (auto simp: to_datetime0_length) (simp add: to_datetime0_def)

lemma reconcile_df_both:
  "reconcile (columns df_both) = [''Datetime'', ''Datetime'', ''Open'', ''High'', ''Low'', ''Close'']"
  by (simp add: df_both_def reconcile_def str_lower_def lower_char_def
        rename_columns_def column_mapping_def)

lemma sorted_map_py_int: "sorted ks \<Longrightarrow> sorted (map py_int ks)"
  by (induction ks) (auto intro: py_int_mono)

lemma transform_ChartBody_D:
  assumes "transform lib df = Response (ChartBody cd) st"
  shows "st = 200 \<and> set required_cols \<subseteq> set (reconcile (columns df))
         \<and> process lib (reconcile (columns df)) (rows df) = Inr cd"
  using assms unfolding transform_def Let_def
  by (auto split: if_splits sum.splits simp del: Set.ball_simps)

lemma process_Inr_D:
  assumes "process lib cols rws = Inr cd"
  shows "\<exists>ts ks. count_list cols ''Datetime'' = 1
           \<and> to_datetime lib (concat (map (\<lambda>r. row_get cols r ''Datetime'') rws)) = Inr ts
           \<and> apply_timestamp lib ts = Inr ks
           \<and> build_chart_data lib cols (sort_values lib (zip ks rws)) = Inr cd"
  using assms unfolding process_def
  by (auto split: if_splits sum.splits)


lemma build_chart_data_rec_x:
  "build_chart_data lib cols krs = Inr cd \<Longrightarrow> map rec_x cd = map (\<lambda>kr. py_int (fst kr)) krs"
proof -
  assume "build_chart_data lib cols krs = Inr cd"
  then have "list_all2 (\<lambda>kr p. chart_point lib cols (fst kr) (snd kr) = Inr p) krs cd"
    by (rule build_chart_data_Inr_D)
  then show ?thesis
    by (induction rule: list_all2_induct) (auto simp: chart_point_Inr)
qed

lemma process_sorted:
  assumes "argsort_ok lib" and "process lib cols rws = Inr cd"
  shows "sorted (map rec_x cd)"
proof -
  obtain ks where b: "build_chart_data lib cols (sort_values lib (zip ks rws)) = Inr cd"
    using process_Inr_D [OF assms(2)] by blast
  have "map rec_x cd = map py_int (map fst (sort_values lib (zip ks rws)))"
    using build_chart_data_rec_x [OF b] by (simp add: comp_def)
  moreover have "sorted (map py_int (map fst (sort_values lib (zip ks rws))))"
    by (rule sorted_map_py_int [OF sort_values_sorted [OF assms(1)]])
  ultimately show ?thesis by simp
qed

lemma row_get_length:
  "length r = length cols \<Longrightarrow> length (row_get cols r name) = count_list cols name"
  unfolding row_get_def
  by (induction r cols rule: list_induct2) auto

lemma datetime_cells_length:
  assumes "\<forall>r \<in> set rws. length r = length cols" and "count_list cols name = 1"
  shows "length (concat (map (\<lambda>r. row_get cols r name) rws)) = length rws"
  using assms(1)
  by (induction rws) (auto simp: row_get_length assms(2))

lemma build_chart_data_total:
  assumes "build_chart_data lib cols sorted_rows = Inr cd" and "mset sorted_rows = mset krs"
  shows "\<exists>unsorted. build_chart_data lib cols krs = Inr unsorted \<and> mset cd = mset unsorted"
proof -
  let ?g = "\<lambda>kr. projr (chart_point lib cols (fst kr) (snd kr))"
  have l: "list_all2 (\<lambda>kr p. chart_point lib cols (fst kr) (snd kr) = Inr p) sorted_rows cd"
    using assms(1) by (rule build_chart_data_Inr_D)
  then have cd: "cd = map ?g sorted_rows"
    by (induction rule: list_all2_induct) auto
  have ok: "\<exists>p. chart_point lib cols (fst kr) (snd kr) = Inr p" if "kr \<in> set sorted_rows" for kr
    using l that by (induction rule: list_all2_induct) auto
  have "set krs = set sorted_rows"
    using assms(2) by (metis mset_eq_setD)
  then have "\<forall>kr \<in> set krs. chart_point lib cols (fst kr) (snd kr) = Inr (?g kr)"
    using ok by fastforce
  then have "list_all2 (\<lambda>kr p. chart_point lib cols (fst kr) (snd kr) = Inr p) krs (map ?g krs)"
    by (simp add: list_all2_conv_all_nth)
  then have "build_chart_data lib cols krs = Inr (map ?g krs)"
    by (rule build_chart_data_Inr_I)
  moreover have "mset cd = mset (map ?g krs)"
    using assms(2) cd by (metis mset_map)
  ultimately show ?thesis by blast
qed

lemma reconcile_lower_header:
  "reconcile [''datetime'', ''open'', ''high'', ''low'', ''close'']
     = [''Datetime'', ''Open'', ''High'', ''Low'', ''Close'']"
  by (simp add: reconcile_def str_lower_def lower_char_def rename_columns_def column_mapping_def)

lemma reconcile_canonical_header:
  "reconcile [''Datetime'', ''Open'', ''High'', ''Low'', ''Close'']
     = [''Datetime'', ''Open'', ''High'', ''Low'', ''Close'']"
  by (simp add: reconcile_def str_lower_def lower_char_def rename_columns_def column_mapping_def)

lemma reconcile_date_header:
  "reconcile [''Date'', ''Open'', ''High'', ''Low'', ''Close'']
     = [''Datetime'', ''Open'', ''High'', ''Low'', ''Close'']"
  by (simp add: reconcile_def str_lower_def lower_char_def rename_columns_def column_mapping_def)

lemmas run_defs =
  transform_def process_def required_cols_def row_get_def lib0_def to_datetime0_def
  sort_values_def chart_point_def float_at_def py_int_def

lemma transform_df_two_days:
  "transform lib0 df_two_days =
     Response (ChartBody [\<lparr>rec_x = 0, rec_y = [Finite 90, Finite 101, Finite 88, Finite 100]\<rparr>,
                          \<lparr>rec_x = 86400000, rec_y = [Finite 100, Finite 110, Finite 95, Finite 105]\<rparr>]) 200"
  by (simp add: df_two_days_def reconcile_date_header run_defs)

lemma list_all2_in_set2:
  "list_all2 P xs ys \<Longrightarrow> y \<in> set ys \<Longrightarrow> \<exists>x \<in> set xs. P x y"
  by (induction rule: list_all2_induct) auto

lemma sort_values_set: "argsort_ok lib \<Longrightarrow> set (sort_values lib keyed) = set keyed"
  by (metis sort_values_mset mset_eq_setD)

lemma float_at_finite:
  "row_get cols r name = [Num (Finite q)] \<Longrightarrow> float_at lib cols r name = Inr v \<Longrightarrow> v = Finite q"
  by (simp add: float_at_def)

lemma transform_df_blank_open:
  "transform lib0 df_blank_open =
     Response (ChartBody [\<lparr>rec_x = 0, rec_y = [NaN, Finite 110, Finite 95, Finite 105]\<rparr>]) 200"
  by (simp add: df_blank_open_def reconcile_lower_header run_defs)

lemma apply_timestamp_total:
  "NaT \<notin> set ts \<Longrightarrow> \<exists>ks. apply_timestamp lib ts = Inr ks \<and> length ks = length ts"
  by (induction lib ts rule: apply_timestamp.induct) auto

lemma float_at_blank_or_num:
  assumes "row_get cols r name = [Blank] \<or> (\<exists>v. row_get cols r name = [Num v])"
  shows "float_at lib cols r name
           = Inr (case row_get cols r name of [Num v] \<Rightarrow> v | _ \<Rightarrow> NaN)"
  using assms by (auto simp: float_at_def)

lemma chart_point_blank_or_num:
  assumes "\<forall>name \<in> set [''Open'', ''High'', ''Low'', ''Close''].
             row_get cols r name = [Blank] \<or> (\<exists>v. row_get cols r name = [Num v])"
  shows "chart_point lib cols k r = Inr \<lparr>rec_x = py_int k, rec_y = expected_y cols r\<rparr>"
proof -
  have "float_at lib cols r name = Inr (case row_get cols r name of [Num v] \<Rightarrow> v | _ \<Rightarrow> NaN)"
    if "name \<in> set [''Open'', ''High'', ''Low'', ''Close'']" for name
    using assms that float_at_blank_or_num by blast
  then show ?thesis
    by (simp add: chart_point_Inr expected_y_def)
qed

lemma transform_df_blank_low:
  "transform lib0 df_blank_low =
     Response (ChartBody [\<lparr>rec_x = 0, rec_y = [Finite 90, Finite 101, Finite 88, Finite 100]\<rparr>,
                          \<lparr>rec_x = 60000, rec_y = [Finite 100, Finite 110, NaN, Finite 105]\<rparr>]) 200"
  by (simp add: df_blank_low_def reconcile_canonical_header run_defs)

lemma float_at_fails_chart_point:
  assumes "name \<in> set [''Open'', ''High'', ''Low'', ''Close'']"
    and "float_at lib cols r name = Inl e"
  shows "\<exists>e'. chart_point lib cols k r = Inl e'"
proof (cases "chart_point lib cols k r")
  case (Inl e')
  then show ?thesis by blast
next
  case (Inr p)
  then have "\<forall>n \<in> set [''Open'', ''High'', ''Low'', ''Close'']. \<exists>v. float_at lib cols r n = Inr v"
    by (auto simp: chart_point_Inr)
  then show ?thesis using assms by fastforce
qed

lemma float_at_Inl_unique:
  assumes "row_get cols r name = [c]" and "float_at lib cols r name = Inl e"
  shows "\<exists>s. c = Str s \<and> float_of_str lib s = None
             \<and> e = ''could not convert string to float: '' @ py_repr s"
  using assms by (cases c) (auto simp: float_at_def split: option.splits)

lemma singleton_of_length_one: "length xs = 1 \<Longrightarrow> \<exists>c. xs = [c]"
  by (cases xs) auto

lemma process_Inl_cases:
  assumes "process lib cols rws = Inl e"
    and "count_list cols ''Datetime'' = 1"
    and "to_datetime lib (concat (map (\<lambda>r. row_get cols r ''Datetime'') rws)) = Inr ts"
    and "NaT \<notin> set ts"
  shows "\<exists>ks. apply_timestamp lib ts = Inr ks
           \<and> build_chart_data lib cols (sort_values lib (zip ks rws)) = Inl e"
proof -
  obtain ks where "apply_timestamp lib ts = Inr ks"
    using apply_timestamp_total [OF assms(4)] by blast
  then show ?thesis
    using assms(1,2,3) by (simp add: process_def)
qed

lemma float_of_str0_abc: "float_of_str0 ''abc'' = None"
  by (simp add: float_of_str0_def)

lemma float_of_str0_digits:
  "float_of_str0 ''100'' = Some (Finite 100)" "float_of_str0 ''105'' = Some (Finite 105)"
  by (simp_all add: float_of_str0_def)

lemma transform_df_abc_open:
  "transform lib0 df_abc_open =
     Response (ErrorBody (''Error processing CSV: could not convert string to float: ''
                            @ [CHR 0x27] @ ''abc'' @ [CHR 0x27])) 500"
  by (simp add: df_abc_open_def reconcile_lower_header run_defs float_of_str0_abc
      py_repr_def repr_char_def Let_def)

lemma transform_df_abc_close:
  "transform lib0 df_abc_close =
     Response (ErrorBody (''Error processing CSV: could not convert string to float: ''
                            @ [CHR 0x27] @ ''abc'' @ [CHR 0x27])) 500"
  by (simp add: df_abc_close_def reconcile_lower_header run_defs float_of_str0_abc
      float_of_str0_digits py_repr_def repr_char_def Let_def)

lemma aquicksort_eighteen_ties:
  "aquicksort [0, 0, 0, 0, 0, 0, 0, 0, 0, 0, 0, 0, 0, 0, 0, 0, 0, 0]
     = Some [0, 15, 14, 13, 12, 11, 10, 9, 8, 7, 6, 5, 4, 3, 2, 1, 16, 17]"
  by code_simp

lemma aquicksort_seventeen_ties:
  "aquicksort [0, 0, 0, 0, 0, 0, 0, 0, 0, 0, 0, 0, 0, 0, 0, 0, 0]
     = Some [0, 1, 2, 3, 4, 5, 6, 7, 8, 9, 10, 11, 12, 13, 14, 15, 16]"
  by code_simp

lemma double_of_seconds: "double_of (1086081300001 / 1000) = 2277677570459697 / 2097152"
  by code_simp

lemma timestamp_ms_double_instance:
  "timestamp_ms_double 1086081300001000000 = 8897178009608191 / 8192"
  by code_simp



lemma apply_timestamp_NaT:
  "NaT \<in> set ts \<Longrightarrow> apply_timestamp lib ts = Inl ''NaTType does not support timestamp''"
  by (induction lib ts rule: apply_timestamp.induct) (auto split: sum.splits)

lemma transform_df_bad_date:
  "transform lib0 df_bad_date =
     Response (ErrorBody (''Error processing CSV: ''
                 @ ''Unknown datetime string format, unable to parse: not a date'')) 500"
  by (simp add: df_bad_date_def reconcile_lower_header run_defs)

section \<open>Properties\<close>

text \<open>
  C2. When, after lower-casing and renaming, one of the five required labels is not
  among the columns, the handler answers with status 400 and the message that joins
  exactly the absent required labels, in the order of \<open>required_cols\<close>, followed by the
  list of the columns found; no chart data is returned.
\<close>

theorem schema_error_names_missing:
  assumes "\<not> set required_cols \<subseteq> set (reconcile (columns df))"
  shows "transform lib df =
           Response (ErrorBody (''CSV must contain '' @ [CHR 0x27]
                       @ join_str '', '' (missing_cols (reconcile (columns df)))
                       @ [CHR 0x27] @ '' columns. Found: ''
                       @ repr_list (reconcile (columns df)))) 400
         \<and> set (missing_cols (reconcile (columns df)))
             = set required_cols - set (reconcile (columns df))
         \<and> missing_cols (reconcile (columns df)) \<noteq> []
         \<and> distinct (missing_cols (reconcile (columns df)))"
proof -
  let ?cols = "reconcile (columns df)"
  have a: "\<not> (\<forall>col \<in> set required_cols. col \<in> set ?cols)"
    using assms by blast
  have "transform lib df = Response (ErrorBody (schema_message ?cols)) 400"
    using a by (simp add: transform_def Let_def del: Set.ball_simps)
  then have t: "transform lib df =
           Response (ErrorBody (''CSV must contain '' @ [CHR 0x27]
                       @ join_str '', '' (missing_cols ?cols)
                       @ [CHR 0x27] @ '' columns. Found: '' @ repr_list ?cols)) 400"
    by (simp add: schema_message_def)
  have "set (missing_cols ?cols) \<noteq> {}"
    using assms by (auto simp: missing_cols_set)
  then have ne: "missing_cols ?cols \<noteq> []"
    by auto
  have d: "distinct (missing_cols ?cols)"
    by (simp add: missing_cols_def required_cols_def)
  show ?thesis
    using t ne d missing_cols_set by blast
qed

theorem schema_error_names_missing_witness:
  "\<not> set required_cols \<subseteq> set (reconcile (columns df_no_close))
   \<and> transform lib0 df_no_close =
       Response (ErrorBody (''CSV must contain '' @ [CHR 0x27] @ ''Close'' @ [CHR 0x27]
          @ '' columns. Found: ['' @ [CHR 0x27] @ ''Datetime'' @ [CHR 0x27] @ '', ''
          @ [CHR 0x27] @ ''Open'' @ [CHR 0x27] @ '', '' @ [CHR 0x27] @ ''High'' @ [CHR 0x27]
          @ '', '' @ [CHR 0x27] @ ''Low'' @ [CHR 0x27] @ '', '' @ [CHR 0x27] @ ''volume''
          @ [CHR 0x27] @ '']'')) 400"
proof -
  have r: "reconcile (columns df_no_close) = [''Datetime'', ''Open'', ''High'', ''Low'', ''volume'']"
    by (simp add: df_no_close_def reconcile_def str_lower_def lower_char_def
        rename_columns_def column_mapping_def)
  have h: "\<not> set required_cols \<subseteq> set (reconcile (columns df_no_close))"
    by (simp add: r required_cols_def)
  have m: "missing_cols [''Datetime'', ''Open'', ''High'', ''Low'', ''volume''] = [''Close'']"
    by (simp add: missing_cols_def required_cols_def)
  have p: "repr_list [''Datetime'', ''Open'', ''High'', ''Low'', ''volume''] =
      ''['' @ [CHR 0x27] @ ''Datetime'' @ [CHR 0x27] @ '', ''
          @ [CHR 0x27] @ ''Open'' @ [CHR 0x27] @ '', '' @ [CHR 0x27] @ ''High'' @ [CHR 0x27]
          @ '', '' @ [CHR 0x27] @ ''Low'' @ [CHR 0x27] @ '', '' @ [CHR 0x27] @ ''volume''
          @ [CHR 0x27] @ '']''"
    by (simp add: repr_list_def py_repr_def repr_char_def Let_def)
  show ?thesis
    using h schema_error_names_missing [OF h, of lib0] by (simp add: r m p)
qed

text \<open>
  C7. When both a \<open>date\<close> and a \<open>datetime\<close> column are present (in any letter case),
  renaming gives both the label \<open>Datetime\<close>: neither overwrites the other, the table
  keeps two columns of that name. The check of the required columns does not count
  \<open>Datetime\<close> as missing, and the conversion then meets a two-column selection: the
  handler answers with an error (status 500 when all required labels are present, the
  status 400 of the missing-columns message otherwise) and never with chart data.
\<close>

theorem date_and_datetime_both_kept:
  assumes "''date'' \<in> set (map str_lower cols)" and "''datetime'' \<in> set (map str_lower cols)"
  shows "2 \<le> count_list (reconcile cols) ''Datetime''
         \<and> transform lib \<lparr>columns = cols, rows = rws\<rparr> =
             (if set required_cols \<subseteq> set (reconcile cols)
              then Response (ErrorBody ''Error processing CSV: cannot assemble with duplicate keys'') 500
              else Response (ErrorBody (schema_message (reconcile cols))) 400)"
proof -
  let ?f = "\<lambda>c. case map_of column_mapping (str_lower c) of Some v \<Rightarrow> v | None \<Rightarrow> str_lower c"
  obtain c1 where c1: "c1 \<in> set cols" "str_lower c1 = ''date''"
    using assms(1) by auto
  obtain c2 where c2: "c2 \<in> set cols" "str_lower c2 = ''datetime''"
    using assms(2) by auto
  have ne: "c1 \<noteq> c2" using c1(2) c2(2) by auto
  have f1: "?f c1 = ''Datetime''" by (simp add: c1(2) column_mapping_def)
  have f2: "?f c2 = ''Datetime''" by (simp add: c2(2) column_mapping_def)
  have "2 \<le> length (filter (\<lambda>c. ?f c = ''Datetime'') cols)"
    by (rule two_members_length [of c1 _ c2]) (use c1(1) c2(1) f1 f2 ne in auto)
  then have cnt: "2 \<le> count_list (reconcile cols) ''Datetime''"
    by (simp add: reconcile_eq count_list_map_filter)
  then have "count_list (reconcile cols) ''Datetime'' \<noteq> 1" by linarith
  then have "process lib (reconcile cols) rws = Inl ''cannot assemble with duplicate keys''"
    by (simp add: process_def)
  then have "transform lib \<lparr>columns = cols, rows = rws\<rparr> =
             (if set required_cols \<subseteq> set (reconcile cols)
              then Response (ErrorBody ''Error processing CSV: cannot assemble with duplicate keys'') 500
              else Response (ErrorBody (schema_message (reconcile cols))) 400)"
    by (auto simp: transform_def Let_def simp del: Set.ball_simps)
  with cnt show ?thesis by blast
qed

theorem date_and_datetime_both_kept_witness:
  "''date'' \<in> set (map str_lower (columns df_both))
   \<and> ''datetime'' \<in> set (map str_lower (columns df_both))
   \<and> 2 \<le> count_list (reconcile (columns df_both)) ''Datetime''
   \<and> transform lib0 \<lparr>columns = columns df_both, rows = rows df_both\<rparr> =
       Response (ErrorBody ''Error processing CSV: cannot assemble with duplicate keys'') 500"
proof -
  have h1: "''date'' \<in> set (map str_lower (columns df_both))"
    by (simp add: df_both_def str_lower_def lower_char_def)
  have h2: "''datetime'' \<in> set (map str_lower (columns df_both))"
    by (simp add: df_both_def str_lower_def lower_char_def)
  have s: "set required_cols \<subseteq> set (reconcile (columns df_both))"
    by (simp add: reconcile_df_both required_cols_def)
  show ?thesis
    using h1 h2 s date_and_datetime_both_kept [OF h1 h2, of lib0 "rows df_both"] by simp
qed

text \<open>
  C7 as stated fails: with the header \<open>date, datetime, open, high, low, close\<close> the
  reconciled table has two \<open>Datetime\<close> columns, not one, and the handler ends with
  status 500.
\<close>

theorem date_and_datetime_counterexample:
  "reconcile (columns df_both) = [''Datetime'', ''Datetime'', ''Open'', ''High'', ''Low'', ''Close'']
   \<and> transform lib0 df_both =
       Response (ErrorBody ''Error processing CSV: cannot assemble with duplicate keys'') 500"
  by (simp add: reconcile_df_both transform_def process_def required_cols_def)

text \<open>
  C6. A table without data rows whose reconciled header holds the five required labels,
  \<open>Datetime\<close> exactly once, is answered with the empty list and status 200.
\<close>

theorem header_only_gives_empty:
  assumes "to_datetime_ok lib" and "argsort_ok lib"
    and "rows df = []"
    and "set required_cols \<subseteq> set (reconcile (columns df))"
    and "count_list (reconcile (columns df)) ''Datetime'' = 1"
  shows "transform lib df = Response (ChartBody []) 200"
proof -
  have td: "to_datetime lib [] = Inr []"
    using assms(1) by (simp add: to_datetime_ok_def)
  have "mset (argsort lib []) = mset [0..<length ([] :: rat list)]"
    using assms(2) unfolding argsort_ok_def by blast
  then have as: "argsort lib [] = []" by simp
  have "process lib (reconcile (columns df)) (rows df) = Inr []"
    by (simp add: process_def assms(3,5) td sort_values_def as)
  moreover have "\<forall>col \<in> set required_cols. col \<in> set (reconcile (columns df))"
    using assms(4) by blast
  ultimately show ?thesis
    by (simp add: transform_def Let_def del: Set.ball_simps)
qed

theorem header_only_gives_empty_witness:
  "to_datetime_ok lib0 \<and> argsort_ok lib0 \<and> rows df_header_only = []
   \<and> set required_cols \<subseteq> set (reconcile (columns df_header_only))
   \<and> count_list (reconcile (columns df_header_only)) ''Datetime'' = 1
   \<and> transform lib0 df_header_only = Response (ChartBody []) 200"
proof -
  have r: "reconcile (columns df_header_only) = [''Datetime'', ''Open'', ''High'', ''Low'', ''Close'']"
    by (simp add: df_header_only_def reconcile_def str_lower_def lower_char_def
        rename_columns_def column_mapping_def)
  have h3: "rows df_header_only = []" by (simp add: df_header_only_def)
  have h4: "set required_cols \<subseteq> set (reconcile (columns df_header_only))"
    by (simp add: r required_cols_def)
  have h5: "count_list (reconcile (columns df_header_only)) ''Datetime'' = 1"
    by (simp add: r)
  show ?thesis
    using header_only_gives_empty [OF lib0_to_datetime_ok lib0_argsort_ok h3 h4 h5]
      lib0_to_datetime_ok lib0_argsort_ok h3 h4 h5 by simp
qed

text \<open>
  C6 as stated fails for a header that holds both \<open>Date\<close> and \<open>Datetime\<close>: all five
  required labels are present after renaming and there is no data row, yet the answer
  is an error with status 500.
\<close>

theorem header_only_counterexample:
  "rows df_both_header_only = []
   \<and> set required_cols \<subseteq> set (reconcile (columns df_both_header_only))
   \<and> transform lib0 df_both_header_only =
       Response (ErrorBody ''Error processing CSV: cannot assemble with duplicate keys'') 500"
proof -
  have r: "reconcile (columns df_both_header_only) =
             [''Datetime'', ''Datetime'', ''Open'', ''High'', ''Low'', ''Close'']"
    by (simp add: df_both_header_only_def reconcile_def str_lower_def lower_char_def
        rename_columns_def column_mapping_def)
  show ?thesis
    by (simp add: r transform_def process_def required_cols_def) (simp add: df_both_header_only_def)
qed

text \<open>
  C5. Whenever the handler returns chart data, the \<open>x\<close> values do not decrease along
  the list: \<open>x[i] \<le> x[i+1]\<close> for every consecutive pair. The rows come from
  \<open>sort_values\<close> in ascending order of the key, and \<open>int\<close> keeps that order.
\<close>

theorem x_non_decreasing:
  assumes "argsort_ok lib" and "transform lib df = Response (ChartBody cd) st"
  shows "sorted (map rec_x cd) \<and> (\<forall>i. Suc i < length cd \<longrightarrow> rec_x (cd ! i) \<le> rec_x (cd ! Suc i))"
proof -
  have "process lib (reconcile (columns df)) (rows df) = Inr cd"
    using transform_ChartBody_D [OF assms(2)] by blast
  then have s: "sorted (map rec_x cd)"
    using assms(1) by (rule process_sorted [rotated])
  then have "\<forall>i. Suc i < length (map rec_x cd) \<longrightarrow> map rec_x cd ! i \<le> map rec_x cd ! Suc i"
    by (simp only: sorted_iff_nth_Suc)
  with s show ?thesis by simp
qed

text \<open>
  C1. The handler sorts the rows ascending by the computed timestamp: the list it
  returns is in ascending order of \<open>x\<close>, holds one record per input row, and is a
  rearrangement of the records that the rows give in input order. The order of rows
  with equal timestamps is left to the default sort of \<open>sort_values\<close>, to which the
  handler passes no \<open>kind\<close>.
\<close>

theorem sorted_rearrangement:
  assumes "argsort_ok lib" and "to_datetime_ok lib" and "wf_dataframe df"
    and "transform lib df = Response (ChartBody cd) st"
  shows "sorted (map rec_x cd) \<and> length cd = length (rows df)
         \<and> (\<exists>ts ks unsorted.
               to_datetime lib (concat (map (\<lambda>r. row_get (reconcile (columns df)) r ''Datetime'')
                                  (rows df))) = Inr ts
             \<and> apply_timestamp lib ts = Inr ks
             \<and> length ks = length (rows df)
             \<and> build_chart_data lib (reconcile (columns df)) (zip ks (rows df)) = Inr unsorted
             \<and> mset cd = mset unsorted)"
proof -
  let ?cols = "reconcile (columns df)"
  have p: "process lib ?cols (rows df) = Inr cd"
    using transform_ChartBody_D [OF assms(4)] by blast
  obtain ts ks where c1: "count_list ?cols ''Datetime'' = 1"
    and td: "to_datetime lib (concat (map (\<lambda>r. row_get ?cols r ''Datetime'') (rows df))) = Inr ts"
    and at: "apply_timestamp lib ts = Inr ks"
    and b: "build_chart_data lib ?cols (sort_values lib (zip ks (rows df))) = Inr cd"
    using process_Inr_D [OF p] by blast
  have "\<forall>r \<in> set (rows df). length r = length ?cols"
    using assms(3) by (simp add: wf_dataframe_def list_all_iff length_reconcile)
  then have "length (concat (map (\<lambda>r. row_get ?cols r ''Datetime'') (rows df))) = length (rows df)"
    using c1 by (rule datetime_cells_length)
  moreover have "length ts = length (concat (map (\<lambda>r. row_get ?cols r ''Datetime'') (rows df)))"
    using assms(2) td unfolding to_datetime_ok_def by blast
  ultimately have lk: "length ks = length (rows df)"
    using apply_timestamp_length [OF at] by simp
  obtain unsorted where u: "build_chart_data lib ?cols (zip ks (rows df)) = Inr unsorted"
    and m: "mset cd = mset unsorted"
    using build_chart_data_total [OF b sort_values_mset [OF assms(1)]] by blast
  have "length unsorted = length (zip ks (rows df))"
    using list_all2_lengthD [OF build_chart_data_Inr_D [OF u]] by simp
  then have "length cd = length (rows df)"
    using m lk by (metis length_zip min.idem mset_eq_length)
  moreover have "sorted (map rec_x cd)"
    using assms(1) p by (rule process_sorted)
  ultimately show ?thesis
    using td at lk u m by blast
qed

theorem x_non_decreasing_witness:
  "argsort_ok lib0
   \<and> transform lib0 df_two_days =
       Response (ChartBody [\<lparr>rec_x = 0, rec_y = [Finite 90, Finite 101, Finite 88, Finite 100]\<rparr>,
                            \<lparr>rec_x = 86400000, rec_y = [Finite 100, Finite 110, Finite 95, Finite 105]\<rparr>]) 200
   \<and> sorted [0, 86400000 :: int]"
  using x_non_decreasing [OF lib0_argsort_ok transform_df_two_days] lib0_argsort_ok
    transform_df_two_days by simp

theorem sorted_rearrangement_witness:
  "argsort_ok lib0 \<and> to_datetime_ok lib0 \<and> wf_dataframe df_two_days
   \<and> transform lib0 df_two_days =
       Response (ChartBody [\<lparr>rec_x = 0, rec_y = [Finite 90, Finite 101, Finite 88, Finite 100]\<rparr>,
                            \<lparr>rec_x = 86400000, rec_y = [Finite 100, Finite 110, Finite 95, Finite 105]\<rparr>]) 200
   \<and> length [\<lparr>rec_x = 0, rec_y = [Finite 90, Finite 101, Finite 88, Finite 100]\<rparr>,
              \<lparr>rec_x = 86400000, rec_y = [Finite 100, Finite 110, Finite 95, Finite 105]\<rparr>]
       = length (rows df_two_days)"
proof -
  have wf: "wf_dataframe df_two_days"
    by (simp add: wf_dataframe_def df_two_days_def)
  show ?thesis
    using sorted_rearrangement [OF lib0_argsort_ok lib0_to_datetime_ok wf transform_df_two_days]
      lib0_argsort_ok lib0_to_datetime_ok wf transform_df_two_days by simp
qed

text \<open>
  C8. Every record of a successful answer has a \<open>y\<close> list of exactly four values, the
  results of \<open>float\<close> on the \<open>Open\<close>, \<open>High\<close>, \<open>Low\<close> and \<open>Close\<close> cells of one input
  row, in that order. The four values are finite when these four cells are finite
  numbers.
\<close>

theorem y_has_four_values:
  assumes "argsort_ok lib" and "transform lib df = Response (ChartBody cd) st" and "p \<in> set cd"
  shows "length (rec_y p) = 4
         \<and> (\<exists>r \<in> set (rows df). \<exists>vo vh vl vc.
               rec_y p = [vo, vh, vl, vc]
             \<and> float_at lib (reconcile (columns df)) r ''Open'' = Inr vo
             \<and> float_at lib (reconcile (columns df)) r ''High'' = Inr vh
             \<and> float_at lib (reconcile (columns df)) r ''Low'' = Inr vl
             \<and> float_at lib (reconcile (columns df)) r ''Close'' = Inr vc
             \<and> ((\<forall>name \<in> set [''Open'', ''High'', ''Low'', ''Close''].
                    \<exists>q. row_get (reconcile (columns df)) r name = [Num (Finite q)])
                  \<longrightarrow> (\<forall>v \<in> set (rec_y p). \<exists>q. v = Finite q)))"
proof -
  let ?cols = "reconcile (columns df)"
  have "process lib ?cols (rows df) = Inr cd"
    using transform_ChartBody_D [OF assms(2)] by blast
  then obtain ks where b: "build_chart_data lib ?cols (sort_values lib (zip ks (rows df))) = Inr cd"
    using process_Inr_D by blast
  obtain kr where kr: "kr \<in> set (sort_values lib (zip ks (rows df)))"
    and cp: "chart_point lib ?cols (fst kr) (snd kr) = Inr p"
    using list_all2_in_set2 [OF build_chart_data_Inr_D [OF b] assms(3)] by blast
  have "kr \<in> set (zip ks (rows df))"
    using kr sort_values_set [OF assms(1)] by blast
  then have r: "snd kr \<in> set (rows df)"
    by (metis prod.collapse set_zip_rightD)
  obtain vo vh vl vc where y: "rec_y p = [vo, vh, vl, vc]"
    and fo: "float_at lib ?cols (snd kr) ''Open'' = Inr vo"
    and fh: "float_at lib ?cols (snd kr) ''High'' = Inr vh"
    and fl: "float_at lib ?cols (snd kr) ''Low'' = Inr vl"
    and fc: "float_at lib ?cols (snd kr) ''Close'' = Inr vc"
    using cp by (auto simp: chart_point_Inr)
  have fin: "\<forall>v \<in> set (rec_y p). \<exists>q. v = Finite q"
    if a: "\<forall>name \<in> set [''Open'', ''High'', ''Low'', ''Close''].
             \<exists>q. row_get ?cols (snd kr) name = [Num (Finite q)]"
  proof -
    have "\<exists>q. vo = Finite q" using a fo float_at_finite by fastforce
    moreover have "\<exists>q. vh = Finite q" using a fh float_at_finite by fastforce
    moreover have "\<exists>q. vl = Finite q" using a fl float_at_finite by fastforce
    moreover have "\<exists>q. vc = Finite q" using a fc float_at_finite by fastforce
    ultimately show ?thesis by (simp add: y)
  qed
  have "length (rec_y p) = 4" by (simp add: y)
  then show ?thesis
    using r y fo fh fl fc fin by blast
qed

theorem y_has_four_values_witness:
  "argsort_ok lib0
   \<and> transform lib0 df_two_days =
       Response (ChartBody [\<lparr>rec_x = 0, rec_y = [Finite 90, Finite 101, Finite 88, Finite 100]\<rparr>,
                            \<lparr>rec_x = 86400000, rec_y = [Finite 100, Finite 110, Finite 95, Finite 105]\<rparr>]) 200
   \<and> length (rec_y \<lparr>rec_x = 0, rec_y = [Finite 90, Finite 101, Finite 88, Finite 100]\<rparr>) = 4"
  using y_has_four_values [OF lib0_argsort_ok transform_df_two_days,
      of "\<lparr>rec_x = 0, rec_y = [Finite 90, Finite 101, Finite 88, Finite 100]\<rparr>"]
    lib0_argsort_ok transform_df_two_days by simp

text \<open>
  C8 as stated fails: a blank \<open>open\<close> cell gives a successful answer whose \<open>y\<close> list
  holds NaN.
\<close>

theorem finite_values_counterexample:
  "transform lib0 df_blank_open =
     Response (ChartBody [\<lparr>rec_x = 0, rec_y = [NaN, Finite 110, Finite 95, Finite 105]\<rparr>]) 200
   \<and> NaN \<in> set (rec_y \<lparr>rec_x = 0, rec_y = [NaN, Finite 110, Finite 95, Finite 105]\<rparr>)"
  by (simp add: transform_df_blank_open)

text \<open>
  C10. \<open>float\<close> on a blank cell is NaN and raises nothing. When the \<open>Datetime\<close> column
  converts and every \<open>Open\<close>, \<open>High\<close>, \<open>Low\<close>, \<open>Close\<close> cell is a number or blank, the
  handler succeeds, and the \<open>y\<close> lists it returns are those of the rows with NaN in the
  place of each blank cell.
\<close>

theorem blank_cell_gives_nan:
  assumes "argsort_ok lib"
    and "set required_cols \<subseteq> set (reconcile (columns df))"
    and "count_list (reconcile (columns df)) ''Datetime'' = 1"
    and "to_datetime lib (concat (map (\<lambda>r. row_get (reconcile (columns df)) r ''Datetime'')
                            (rows df))) = Inr ts"
    and "length ts = length (rows df)" and "NaT \<notin> set ts"
    and "\<forall>r \<in> set (rows df). \<forall>name \<in> set [''Open'', ''High'', ''Low'', ''Close''].
           row_get (reconcile (columns df)) r name = [Blank]
           \<or> (\<exists>v. row_get (reconcile (columns df)) r name = [Num v])"
  shows "py_float lib Blank = Inr NaN
         \<and> (\<exists>cd. transform lib df = Response (ChartBody cd) 200
              \<and> mset (map rec_y cd) = mset (map (expected_y (reconcile (columns df))) (rows df)))"
proof -
  let ?cols = "reconcile (columns df)"
  let ?g = "\<lambda>kr. \<lparr>rec_x = py_int (fst kr), rec_y = expected_y ?cols (snd kr)\<rparr>"
  obtain ks where at: "apply_timestamp lib ts = Inr ks" and lk: "length ks = length ts"
    using apply_timestamp_total [OF assms(6)] by blast
  let ?kz = "zip ks (rows df)"
  let ?sv = "sort_values lib ?kz"
  have "\<forall>kr \<in> set ?sv. chart_point lib ?cols (fst kr) (snd kr) = Inr (?g kr)"
  proof
    fix kr assume "kr \<in> set ?sv"
    then have "kr \<in> set ?kz" using sort_values_set [OF assms(1)] by blast
    then have "snd kr \<in> set (rows df)" by (metis prod.collapse set_zip_rightD)
    then show "chart_point lib ?cols (fst kr) (snd kr) = Inr (?g kr)"
      using assms(7) chart_point_blank_or_num by blast
  qed
  then have "list_all2 (\<lambda>kr p. chart_point lib ?cols (fst kr) (snd kr) = Inr p) ?sv (map ?g ?sv)"
    by (simp add: list_all2_conv_all_nth)
  then have b: "build_chart_data lib ?cols ?sv = Inr (map ?g ?sv)"
    by (rule build_chart_data_Inr_I)
  have "process lib ?cols (rows df) = Inr (map ?g ?sv)"
    by (simp add: process_def assms(3,4) at b)
  moreover have "\<forall>col \<in> set required_cols. col \<in> set ?cols"
    using assms(2) by blast
  ultimately have t: "transform lib df = Response (ChartBody (map ?g ?sv)) 200"
    by (simp add: transform_def Let_def del: Set.ball_simps)
  have "map rec_y (map ?g ?sv) = map (\<lambda>kr. expected_y ?cols (snd kr)) ?sv"
    by simp
  then have "mset (map rec_y (map ?g ?sv)) = image_mset (\<lambda>kr. expected_y ?cols (snd kr)) (mset ?sv)"
    by (simp only: mset_map)
  also have "\<dots> = image_mset (\<lambda>kr. expected_y ?cols (snd kr)) (mset ?kz)"
    by (simp only: sort_values_mset [OF assms(1)])
  also have "\<dots> = mset (map (expected_y ?cols) (map snd ?kz))"
    by (simp add: comp_def)
  also have "map snd ?kz = rows df"
    using lk assms(5) by simp
  finally have m: "mset (map rec_y (map ?g ?sv)) = mset (map (expected_y ?cols) (rows df))" .
  have "\<exists>cd. transform lib df = Response (ChartBody cd) 200
          \<and> mset (map rec_y cd) = mset (map (expected_y ?cols) (rows df))"
    using t m by (intro exI [of _ "map ?g ?sv"] conjI)
  moreover have "py_float lib Blank = Inr NaN" by simp
  ultimately show ?thesis by (intro conjI)
qed

theorem blank_cell_gives_nan_witness:
  "argsort_ok lib0
   \<and> set required_cols \<subseteq> set (reconcile (columns df_blank_low))
   \<and> count_list (reconcile (columns df_blank_low)) ''Datetime'' = 1
   \<and> to_datetime lib0 (concat (map (\<lambda>r. row_get (reconcile (columns df_blank_low)) r ''Datetime'')
                            (rows df_blank_low))) = Inr [Timestamp 60000000000, Timestamp 0]
   \<and> row_get (reconcile (columns df_blank_low)) (rows df_blank_low ! 0) ''Low'' = [Blank]
   \<and> py_float lib0 Blank = Inr NaN
   \<and> transform lib0 df_blank_low =
       Response (ChartBody [\<lparr>rec_x = 0, rec_y = [Finite 90, Finite 101, Finite 88, Finite 100]\<rparr>,
                            \<lparr>rec_x = 60000, rec_y = [Finite 100, Finite 110, NaN, Finite 105]\<rparr>]) 200
   \<and> mset [[Finite 90, Finite 101, Finite 88, Finite 100], [Finite 100, Finite 110, NaN, Finite 105]]
       = mset (map (expected_y (reconcile (columns df_blank_low))) (rows df_blank_low))"
proof -
  have c: "reconcile (columns df_blank_low) = [''Datetime'', ''Open'', ''High'', ''Low'', ''Close'']"
    by (simp add: df_blank_low_def reconcile_canonical_header)
  have h2: "set required_cols \<subseteq> set (reconcile (columns df_blank_low))"
    by (simp add: c required_cols_def)
  have h3: "count_list (reconcile (columns df_blank_low)) ''Datetime'' = 1"
    by (simp add: c)
  have h4: "to_datetime lib0 (concat (map (\<lambda>r. row_get (reconcile (columns df_blank_low)) r ''Datetime'')
                            (rows df_blank_low))) = Inr [Timestamp 60000000000, Timestamp 0]"
    by (simp add: df_blank_low_def reconcile_canonical_header row_get_def lib0_def to_datetime0_def)
  have h5: "length [Timestamp 60000000000, Timestamp 0] = length (rows df_blank_low)"
    by (simp add: df_blank_low_def)
  have h6: "NaT \<notin> set [Timestamp 60000000000, Timestamp 0]"
    by simp
  have h7: "\<forall>r \<in> set (rows df_blank_low). \<forall>name \<in> set [''Open'', ''High'', ''Low'', ''Close''].
           row_get (reconcile (columns df_blank_low)) r name = [Blank]
           \<or> (\<exists>v. row_get (reconcile (columns df_blank_low)) r name = [Num v])"
    by (simp add: df_blank_low_def reconcile_canonical_header row_get_def)
  have b: "row_get (reconcile (columns df_blank_low)) (rows df_blank_low ! 0) ''Low'' = [Blank]"
    by (simp add: df_blank_low_def reconcile_canonical_header row_get_def)
  have "\<exists>cd. transform lib0 df_blank_low = Response (ChartBody cd) 200
          \<and> mset (map rec_y cd)
              = mset (map (expected_y (reconcile (columns df_blank_low))) (rows df_blank_low))"
    using blank_cell_gives_nan [OF lib0_argsort_ok h2 h3 h4 h5 h6 h7] by blast
  then have "mset [[Finite 90, Finite 101, Finite 88, Finite 100], [Finite 100, Finite 110, NaN, Finite 105]]
       = mset (map (expected_y (reconcile (columns df_blank_low))) (rows df_blank_low))"
    by (simp add: transform_df_blank_low)
  then show ?thesis
    using lib0_argsort_ok h2 h3 h4 b transform_df_blank_low by simp
qed

text \<open>
  C1 as stated fails: on eighteen rows with the same timestamp numpy's quicksort
  returns rows 1 to 15 in reverse, so rows with equal timestamps do not keep their
  input order.
\<close>

theorem stable_order_counterexample:
  "rows df_ties = map tie_row [0, 1, 2, 3, 4, 5, 6, 7, 8, 9, 10, 11, 12, 13, 14, 15, 16, 17]
   \<and> transform lib_numpy df_ties =
       Response (ChartBody (map tie_record
                   [0, 15, 14, 13, 12, 11, 10, 9, 8, 7, 6, 5, 4, 3, 2, 1, 16, 17])) 200"
  by code_simp




text \<open>
  C3. When \<open>pd.to_datetime\<close> raises on the \<open>Datetime\<close> column, or some \<open>Open\<close>, \<open>High\<close>,
  \<open>Low\<close> or \<open>Close\<close> cell is text that \<open>float\<close> rejects, the handler returns no chart data
  but status 500 with the message \<open>Error processing CSV: \<close> followed by the text of
  the exception. That text is the one \<open>pd.to_datetime\<close> raised with when it raises;
  when the labels are unique and the dates convert it is
  \<open>could not convert string to float: \<close> followed by the \<open>repr\<close> of a rejected cell, which
  names the raw value and neither the row nor the column.
\<close>

theorem bad_value_aborts:
  assumes "argsort_ok lib" and "to_datetime_ok lib" and "wf_dataframe df"
    and "set required_cols \<subseteq> set (reconcile (columns df))"
    and "(\<exists>e. to_datetime lib (concat (map (\<lambda>r. row_get (reconcile (columns df)) r ''Datetime'')
                                    (rows df))) = Inl e)
         \<or> (\<exists>r \<in> set (rows df). \<exists>name \<in> set [''Open'', ''High'', ''Low'', ''Close'']. \<exists>s.
               row_get (reconcile (columns df)) r name = [Str s] \<and> float_of_str lib s = None)"
  shows "\<exists>e. transform lib df = Response (ErrorBody (''Error processing CSV: '' @ e)) 500
           \<and> (count_list (reconcile (columns df)) ''Datetime'' \<noteq> 1
                \<longrightarrow> e = ''cannot assemble with duplicate keys'')
           \<and> (\<forall>e0. count_list (reconcile (columns df)) ''Datetime'' = 1
                  \<and> to_datetime lib (concat (map (\<lambda>r. row_get (reconcile (columns df)) r ''Datetime'')
                                          (rows df))) = Inl e0
                \<longrightarrow> e = e0)
           \<and> (\<forall>ts. count_list (reconcile (columns df)) ''Datetime'' = 1
                  \<and> to_datetime lib (concat (map (\<lambda>r. row_get (reconcile (columns df)) r ''Datetime'')
                                          (rows df))) = Inr ts
                  \<and> NaT \<in> set ts
                \<longrightarrow> e = ''NaTType does not support timestamp'')
           \<and> ((\<forall>name \<in> set required_cols. count_list (reconcile (columns df)) name = 1)
                \<and> (\<exists>ts. to_datetime lib (concat (map (\<lambda>r. row_get (reconcile (columns df)) r ''Datetime'')
                                             (rows df))) = Inr ts \<and> NaT \<notin> set ts)
              \<longrightarrow> (\<exists>r \<in> set (rows df). \<exists>name \<in> set [''Open'', ''High'', ''Low'', ''Close'']. \<exists>s.
                     row_get (reconcile (columns df)) r name = [Str s] \<and> float_of_str lib s = None
                     \<and> e = ''could not convert string to float: '' @ py_repr s))"
proof -
  let ?cols = "reconcile (columns df)"
  let ?cells = "concat (map (\<lambda>r. row_get ?cols r ''Datetime'') (rows df))"
  have wf: "\<forall>r \<in> set (rows df). length r = length ?cols"
    using assms(3) by (simp add: wf_dataframe_def list_all_iff length_reconcile)
  have fails: "\<exists>e. process lib ?cols (rows df) = Inl e"
  proof (cases "count_list ?cols ''Datetime'' = 1")
    case False
    then show ?thesis by (simp add: process_def)
  next
    case c1: True
    show ?thesis
    proof (cases "to_datetime lib ?cells")
      case (Inl e)
      then show ?thesis using c1 by (simp add: process_def)
    next
      case (Inr ts)
      then obtain r name s where r: "r \<in> set (rows df)"
        and n: "name \<in> set [''Open'', ''High'', ''Low'', ''Close'']"
        and rg: "row_get ?cols r name = [Str s]" and fs: "float_of_str lib s = None"
        using assms(5) by auto
      show ?thesis
      proof (cases "apply_timestamp lib ts")
        case (Inl e)
        then show ?thesis using c1 Inr by (simp add: process_def)
      next
        case ks: (Inr ks)
        have "length ?cells = length (rows df)"
          using wf c1 by (rule datetime_cells_length)
        moreover have "length ts = length ?cells"
          using assms(2) Inr unfolding to_datetime_ok_def by blast
        ultimately have lk: "length ks = length (rows df)"
          using apply_timestamp_length [OF ks] by simp
        obtain i where i: "i < length (rows df)" "rows df ! i = r"
          using r by (auto simp: in_set_conv_nth)
        then have "(ks ! i, r) \<in> set (zip ks (rows df))"
          using lk by (auto simp: set_zip)
        then have mem: "(ks ! i, r) \<in> set (sort_values lib (zip ks (rows df)))"
          using sort_values_set [OF assms(1)] by blast
        have "float_at lib ?cols r name = Inl (''could not convert string to float: '' @ py_repr s)"
          by (simp add: float_at_def rg fs)
        then obtain e' where "chart_point lib ?cols (ks ! i) r = Inl e'"
          using float_at_fails_chart_point [OF n] by blast
        then have "\<exists>e. build_chart_data lib ?cols (sort_values lib (zip ks (rows df))) = Inl e"
          using build_chart_data_fails [OF mem] by simp
        then show ?thesis
          using c1 Inr ks by (simp add: process_def)
      qed
    qed
  qed
  then obtain e where e: "process lib ?cols (rows df) = Inl e" by blast
  have "\<forall>col \<in> set required_cols. col \<in> set ?cols"
    using assms(4) by blast
  then have t: "transform lib df = Response (ErrorBody (''Error processing CSV: '' @ e)) 500"
    using e by (simp add: transform_def Let_def del: Set.ball_simps)
  have numeric: "\<exists>r \<in> set (rows df). \<exists>name \<in> set [''Open'', ''High'', ''Low'', ''Close'']. \<exists>s.
                row_get ?cols r name = [Str s] \<and> float_of_str lib s = None
                \<and> e = ''could not convert string to float: '' @ py_repr s"
    if u: "\<forall>name \<in> set required_cols. count_list ?cols name = 1"
      and td: "to_datetime lib ?cells = Inr ts" and nn: "NaT \<notin> set ts" for ts
  proof -
    have c1: "count_list ?cols ''Datetime'' = 1"
      using u by (simp add: required_cols_def)
    obtain ks where b: "build_chart_data lib ?cols (sort_values lib (zip ks (rows df))) = Inl e"
      using process_Inl_cases [OF e c1 td nn] by blast
    obtain kr where kr: "kr \<in> set (sort_values lib (zip ks (rows df)))"
      and cp: "chart_point lib ?cols (fst kr) (snd kr) = Inl e"
      using build_chart_data_Inl [OF b] by blast
    have "kr \<in> set (zip ks (rows df))"
      using kr sort_values_set [OF assms(1)] by blast
    then have r: "snd kr \<in> set (rows df)"
      by (metis prod.collapse set_zip_rightD)
    obtain name where n: "name \<in> set [''Open'', ''High'', ''Low'', ''Close'']"
      and fa: "float_at lib ?cols (snd kr) name = Inl e"
      using chart_point_Inl [OF cp] by blast
    have "name \<in> set required_cols"
      using n by (auto simp: required_cols_def)
    then have "count_list ?cols name = 1" using u by blast
    moreover have "length (snd kr) = length ?cols" using wf r by blast
    ultimately have "length (row_get ?cols (snd kr) name) = 1"
      by (simp add: row_get_length)
    then obtain c where c: "row_get ?cols (snd kr) name = [c]"
      using singleton_of_length_one by blast
    obtain s where "c = Str s" "float_of_str lib s = None"
      "e = ''could not convert string to float: '' @ py_repr s"
      using float_at_Inl_unique [OF c fa] by blast
    then show ?thesis
      using r n c by blast
  qed
  have dup: "e = ''cannot assemble with duplicate keys''" if "count_list ?cols ''Datetime'' \<noteq> 1"
    using e that by (simp add: process_def)
  have raised: "e = e0" if "count_list ?cols ''Datetime'' = 1" "to_datetime lib ?cells = Inl e0" for e0
    using e that by (simp add: process_def)
  have nat: "e = ''NaTType does not support timestamp''"
    if "count_list ?cols ''Datetime'' = 1" "to_datetime lib ?cells = Inr ts" "NaT \<in> set ts" for ts
    using e that apply_timestamp_NaT [of ts lib] by (simp add: process_def)
  show ?thesis
  proof (intro exI [of _ e] conjI)
    show "transform lib df = Response (ErrorBody (''Error processing CSV: '' @ e)) 500"
      by (rule t)
  next
    show "count_list ?cols ''Datetime'' \<noteq> 1 \<longrightarrow> e = ''cannot assemble with duplicate keys''"
      by (intro impI) (rule dup)
  next
    show "\<forall>e0. count_list ?cols ''Datetime'' = 1 \<and> to_datetime lib ?cells = Inl e0 \<longrightarrow> e = e0"
    proof (intro allI impI)
      fix e0
      assume a: "count_list ?cols ''Datetime'' = 1 \<and> to_datetime lib ?cells = Inl e0"
      show "e = e0"
        by (rule raised [OF conjunct1 [OF a] conjunct2 [OF a]])
    qed
  next
    show "\<forall>ts. count_list ?cols ''Datetime'' = 1 \<and> to_datetime lib ?cells = Inr ts \<and> NaT \<in> set ts
            \<longrightarrow> e = ''NaTType does not support timestamp''"
    proof (intro allI impI)
      fix ts
      assume a: "count_list ?cols ''Datetime'' = 1 \<and> to_datetime lib ?cells = Inr ts \<and> NaT \<in> set ts"
      show "e = ''NaTType does not support timestamp''"
        by (rule nat [OF conjunct1 [OF a] conjunct1 [OF conjunct2 [OF a]]
              conjunct2 [OF conjunct2 [OF a]]])
    qed
  next
    show "(\<forall>name \<in> set required_cols. count_list ?cols name = 1)
            \<and> (\<exists>ts. to_datetime lib ?cells = Inr ts \<and> NaT \<notin> set ts)
          \<longrightarrow> (\<exists>r \<in> set (rows df). \<exists>name \<in> set [''Open'', ''High'', ''Low'', ''Close'']. \<exists>s.
                 row_get ?cols r name = [Str s] \<and> float_of_str lib s = None
                 \<and> e = ''could not convert string to float: '' @ py_repr s)"
    proof (intro impI)
      assume a: "(\<forall>name \<in> set required_cols. count_list ?cols name = 1)
            \<and> (\<exists>ts. to_datetime lib ?cells = Inr ts \<and> NaT \<notin> set ts)"
      from conjunct2 [OF a] obtain ts where b: "to_datetime lib ?cells = Inr ts \<and> NaT \<notin> set ts" ..
      show "\<exists>r \<in> set (rows df). \<exists>name \<in> set [''Open'', ''High'', ''Low'', ''Close'']. \<exists>s.
                 row_get ?cols r name = [Str s] \<and> float_of_str lib s = None
                 \<and> e = ''could not convert string to float: '' @ py_repr s"
        by (rule numeric [OF conjunct1 [OF a] conjunct1 [OF b] conjunct2 [OF b]])
    qed
  qed
qed

theorem bad_value_aborts_witness:
  "argsort_ok lib0 \<and> to_datetime_ok lib0
   \<and> wf_dataframe df_abc_open
   \<and> set required_cols \<subseteq> set (reconcile (columns df_abc_open))
   \<and> row_get (reconcile (columns df_abc_open)) (rows df_abc_open ! 0) ''Open'' = [Str ''abc'']
   \<and> float_of_str lib0 ''abc'' = None
   \<and> transform lib0 df_abc_open =
       Response (ErrorBody (''Error processing CSV: could not convert string to float: ''
                              @ [CHR 0x27] @ ''abc'' @ [CHR 0x27])) 500
   \<and> wf_dataframe df_bad_date
   \<and> set required_cols \<subseteq> set (reconcile (columns df_bad_date))
   \<and> to_datetime lib0 (concat (map (\<lambda>r. row_get (reconcile (columns df_bad_date)) r ''Datetime'')
                             (rows df_bad_date)))
       = Inl ''Unknown datetime string format, unable to parse: not a date''
   \<and> transform lib0 df_bad_date =
       Response (ErrorBody (''Error processing CSV: ''
                   @ ''Unknown datetime string format, unable to parse: not a date'')) 500"
proof -
  have c: "reconcile (columns df_abc_open) = [''Datetime'', ''Open'', ''High'', ''Low'', ''Close'']"
    by (simp add: df_abc_open_def reconcile_lower_header)
  have wf: "wf_dataframe df_abc_open"
    by (simp add: wf_dataframe_def df_abc_open_def)
  have h4: "set required_cols \<subseteq> set (reconcile (columns df_abc_open))"
    by (simp add: c required_cols_def)
  have rg: "row_get (reconcile (columns df_abc_open)) (rows df_abc_open ! 0) ''Open'' = [Str ''abc'']"
    by (simp add: df_abc_open_def reconcile_lower_header row_get_def)
  have fs: "float_of_str lib0 ''abc'' = None"
    by (simp add: lib0_def float_of_str0_abc)
  have r0: "rows df_abc_open ! 0 \<in> set (rows df_abc_open)"
    by (simp add: df_abc_open_def)
  have h5: "(\<exists>e. to_datetime lib0 (concat (map (\<lambda>r. row_get (reconcile (columns df_abc_open)) r ''Datetime'')
                                    (rows df_abc_open))) = Inl e)
         \<or> (\<exists>r \<in> set (rows df_abc_open). \<exists>name \<in> set [''Open'', ''High'', ''Low'', ''Close'']. \<exists>s.
               row_get (reconcile (columns df_abc_open)) r name = [Str s] \<and> float_of_str lib0 s = None)"
    using r0 rg fs by (intro disjI2 bexI [of _ "rows df_abc_open ! 0"] bexI [of _ "''Open''"] exI [of _ "''abc''"]) simp_all
  note w1 = bad_value_aborts [OF lib0_argsort_ok lib0_to_datetime_ok wf h4 h5]
  have c': "reconcile (columns df_bad_date) = [''Datetime'', ''Open'', ''High'', ''Low'', ''Close'']"
    by (simp add: df_bad_date_def reconcile_lower_header)
  have wf': "wf_dataframe df_bad_date"
    by (simp add: wf_dataframe_def df_bad_date_def)
  have h4': "set required_cols \<subseteq> set (reconcile (columns df_bad_date))"
    by (simp add: c' required_cols_def)
  have td: "to_datetime lib0 (concat (map (\<lambda>r. row_get (reconcile (columns df_bad_date)) r ''Datetime'')
                             (rows df_bad_date)))
       = Inl ''Unknown datetime string format, unable to parse: not a date''"
    by (simp add: df_bad_date_def reconcile_lower_header row_get_def lib0_def to_datetime0_def)
  have h5': "(\<exists>e. to_datetime lib0 (concat (map (\<lambda>r. row_get (reconcile (columns df_bad_date)) r ''Datetime'')
                                    (rows df_bad_date))) = Inl e)
         \<or> (\<exists>r \<in> set (rows df_bad_date). \<exists>name \<in> set [''Open'', ''High'', ''Low'', ''Close'']. \<exists>s.
               row_get (reconcile (columns df_bad_date)) r name = [Str s] \<and> float_of_str lib0 s = None)"
    by (rule disjI1) (rule exI, rule td)
  note w2 = bad_value_aborts [OF lib0_argsort_ok lib0_to_datetime_ok wf' h4' h5']
  show ?thesis
    apply (insert w1 w2)
    apply (intro conjI)
              apply (rule lib0_argsort_ok)
             apply (rule lib0_to_datetime_ok)
            apply (rule wf)
           apply (rule h4)
          apply (rule rg)
         apply (rule fs)
        apply (rule transform_df_abc_open)
       apply (rule wf')
      apply (rule h4')
     apply (rule td)
    apply (rule transform_df_bad_date)
    done
qed

text \<open>
  C3 as stated fails: the text \<open>abc\<close> in the \<open>open\<close> column of the first row and in the
  \<open>close\<close> column of the second row give the same response, which names neither a
  row index nor a column.
\<close>

theorem parse_error_location_counterexample:
  "rows df_abc_open ! 0 ! 1 = Str ''abc'' \<and> rows df_abc_close ! 1 ! 4 = Str ''abc''
   \<and> transform lib0 df_abc_open =
       Response (ErrorBody (''Error processing CSV: could not convert string to float: ''
                              @ [CHR 0x27] @ ''abc'' @ [CHR 0x27])) 500
   \<and> transform lib0 df_abc_close =
       Response (ErrorBody (''Error processing CSV: could not convert string to float: ''
                              @ [CHR 0x27] @ ''abc'' @ [CHR 0x27])) 500"
  using transform_df_abc_open transform_df_abc_close
  by (simp add: df_abc_open_def df_abc_close_def)

end
